theory Spec2Isabelle
  imports Complex_Main "HOL-Library.Multiset" "HOL-Library.Sublist"
begin

section \<open>JavaScript values used by the handlers\<close>

text \<open>
  The action handlers return plain JavaScript objects. A result object is modelled as the
  list of its fields in the order the object literal writes them. Numbers are exact
  rationals (the handlers only add, multiply and divide them).
\<close>

datatype jv =
    JUndefined
  | JBool bool
  | JNum rat
  | JStr string
  | JArr "jv list"
  | JObj "(string \<times> jv) list"

type_synonym result = "(string \<times> jv) list"

text \<open>Reading a field of an object: \<open>None\<close> when the object has no such field.\<close>

definition field :: "result \<Rightarrow> string \<Rightarrow> jv option" where
  "field r k = map_of r k"

text \<open>JavaScript truthiness of the optional parameters the handlers test with \<open>if (x)\<close>.\<close>

fun truthy_num :: "rat option \<Rightarrow> bool" where
  "truthy_num None = False"
| "truthy_num (Some d) = (d \<noteq> 0)"

fun truthy_str :: "string option \<Rightarrow> bool" where
  "truthy_str None = False"
| "truthy_str (Some s) = (s \<noteq> [])"

fun truthy_bool :: "bool option \<Rightarrow> bool" where
  "truthy_bool None = False"
| "truthy_bool (Some b) = b"

section \<open>Analytics container\<close>

datatype event_type = video_generated | image_generated | workflow_completed | preference_changed

record event_data =
  ev_success :: bool
  ev_duration :: "rat option"

record event =
  ev_type :: event_type
  ev_timestamp :: nat
  ev_data :: event_data

record cost_totals =
  totalVideos :: nat
  totalImages :: nat
  estimatedCost :: nat

record perf_stats =
  averageVideoTime :: rat
  averageImageTime :: rat
  failureRate :: rat

record AnalyticsMemory =
  events :: "event list"
  costs :: cost_totals
  performance :: perf_stats

text \<open>\<open>analyticsContext.create\<close>: the fresh analytics state.\<close>

definition analytics_create :: AnalyticsMemory where
  "analytics_create =
     \<lparr> events = [],
       costs = \<lparr> totalVideos = 0, totalImages = 0, estimatedCost = 0 \<rparr>,
       performance = \<lparr> averageVideoTime = 0, averageImageTime = 0, failureRate = 0 \<rparr> \<rparr>"

datatype gen_type = Video | Image

text \<open>
  The \<open>track-generation\<close> handler. \<open>now\<close> is the value of \<open>Date.now()\<close>. The handler
  pushes the event, then updates the aggregates only when \<open>success\<close> holds; the running
  average is touched only when \<open>duration\<close> is truthy (present and not 0). \<open>count\<close> is
  read after the increment, so it is at least 1 and the division is defined.
\<close>

definition track_generation ::
  "gen_type \<Rightarrow> bool \<Rightarrow> rat option \<Rightarrow> nat \<Rightarrow> AnalyticsMemory \<Rightarrow> result \<times> AnalyticsMemory" where
  "track_generation ty success duration now m =
     (let eventType = (if ty = Video then video_generated else image_generated);
          m1 = m\<lparr> events := events m @
                 [\<lparr> ev_type = eventType, ev_timestamp = now,
                    ev_data = \<lparr> ev_success = success, ev_duration = duration \<rparr> \<rparr>] \<rparr>;
          m2 =
            (if success then
               (if ty = Video then
                  (let c1 = (costs m1)\<lparr> totalVideos := totalVideos (costs m1) + 1 \<rparr>;
                       c2 = c1\<lparr> estimatedCost := estimatedCost c1 + 50 \<rparr>;
                       m' = m1\<lparr> costs := c2 \<rparr>
                   in if truthy_num duration then
                        (let avg = averageVideoTime (performance m');
                             count = totalVideos (costs m')
                         in m'\<lparr> performance := (performance m')
                               \<lparr> averageVideoTime :=
                                   (avg * of_nat (count - 1) + the duration) / of_nat count \<rparr> \<rparr>)
                      else m')
                else
                  (let c1 = (costs m1)\<lparr> totalImages := totalImages (costs m1) + 1 \<rparr>;
                       c2 = c1\<lparr> estimatedCost := estimatedCost c1 + 10 \<rparr>
                   in m1\<lparr> costs := c2 \<rparr>))
             else m1)
      in ([(''tracked'', JBool True)], m2))"

text \<open>
  A sequence of successful video events: one call per pair of a duration and the clock
  value at the call, applied in order.
\<close>

fun track_videos :: "(rat \<times> nat) list \<Rightarrow> AnalyticsMemory \<Rightarrow> AnalyticsMemory" where
  "track_videos [] m = m"
| "track_videos ((d, now) # rest) m =
     track_videos rest (snd (track_generation Video True (Some d) now m))"

text \<open>A thrown value is either an \<open>Error\<close> with its message or something else.\<close>

datatype thrown = Error string | Not_an_Error

section \<open>Media store\<close>

subsection \<open>Node's base64 codec\<close>

text \<open>
  A \<open>Buffer\<close> is a list of bytes; \<open>char\<close> is the 8-bit byte. \<open>Buffer.from(s, 'base64')\<close>
  and \<open>buf.toString('base64')\<close> belong to the Node runtime, not to the repository; they
  are modelled after Node's decoder and encoder: the decoder accepts the standard and
  the URL-safe alphabet, skips every other character, stops at the first \<open>=\<close>, and emits
  a byte as soon as a group has the bits for it; the encoder pads with \<open>=\<close>.
\<close>

type_synonym buffer = "char list"

definition unbase64 :: "char \<Rightarrow> nat option" where
  "unbase64 c =
     (let n = (of_char c :: nat) in
      if 65 \<le> n \<and> n \<le> 90 then Some (n - 65)
      else if 97 \<le> n \<and> n \<le> 122 then Some (n - 71)
      else if 48 \<le> n \<and> n \<le> 57 then Some (n + 4)
      else if c = CHR ''+'' \<or> c = CHR ''-'' then Some 62
      else if c = CHR ''/'' \<or> c = CHR ''_'' then Some 63
      else None)"

definition base64_char :: "nat \<Rightarrow> char" where
  "base64_char n =
     (if n < 26 then char_of (n + 65)
      else if n < 52 then char_of (n + 71)
      else if n < 62 then char_of (n - 4)
      else if n = 62 then CHR ''+''
      else CHR ''/'')"

fun base64_sextets :: "string \<Rightarrow> nat list" where
  "base64_sextets [] = []"
| "base64_sextets (c # cs) =
     (if c = CHR ''='' then []
      else (case unbase64 c of
              None \<Rightarrow> base64_sextets cs
            | Some n \<Rightarrow> n # base64_sextets cs))"

fun sextets_bytes :: "nat list \<Rightarrow> buffer" where
  "sextets_bytes (a # b # c # d # rest) =
     char_of (a * 4 + b div 16) # char_of ((b mod 16) * 16 + c div 4)
       # char_of ((c mod 4) * 64 + d) # sextets_bytes rest"
| "sextets_bytes [a, b, c] = [char_of (a * 4 + b div 16), char_of ((b mod 16) * 16 + c div 4)]"
| "sextets_bytes [a, b] = [char_of (a * 4 + b div 16)]"
| "sextets_bytes [a] = []"
| "sextets_bytes [] = []"

definition buffer_from_base64 :: "string \<Rightarrow> buffer" where
  "buffer_from_base64 s = sextets_bytes (base64_sextets s)"

fun buffer_to_base64 :: "buffer \<Rightarrow> string" where
  "buffer_to_base64 (x # y # z # rest) =
     base64_char (of_char x div 4)
       # base64_char ((of_char x mod 4) * 16 + of_char y div 16)
       # base64_char ((of_char y mod 16) * 4 + of_char z div 64)
       # base64_char (of_char z mod 64)
       # buffer_to_base64 rest"
| "buffer_to_base64 [x, y] =
     [base64_char (of_char x div 4),
      base64_char ((of_char x mod 4) * 16 + of_char y div 16),
      base64_char ((of_char y mod 16) * 4), CHR ''='']"
| "buffer_to_base64 [x] =
     [base64_char (of_char x div 4), base64_char ((of_char x mod 4) * 16), CHR ''='', CHR ''='']"
| "buffer_to_base64 [] = []"

subsection \<open>image-store.ts\<close>

text \<open>
  \<open>saveImage\<close> removes a data-URL header with
  \<open>base64Data.replace(/^data:image\/\w+;base64,/, '')\<close>. The pattern is anchored; \<open>\w+\<close> is
  a non-empty run of letters, digits and \<open>_\<close>, and since the next character has to be
  \<open>;\<close> the run is the longest one. Where the pattern does not match, \<open>replace\<close> returns
  the string as it is.
\<close>

definition is_word_char :: "char \<Rightarrow> bool" where
  "is_word_char c =
     (let n = (of_char c :: nat) in
      (65 \<le> n \<and> n \<le> 90) \<or> (97 \<le> n \<and> n \<le> 122) \<or> (48 \<le> n \<and> n \<le> 57) \<or> c = CHR ''_'')"

definition matches_image_data_url :: "string \<Rightarrow> bool" where
  "matches_image_data_url s =
     (prefix ''data:image/'' s \<and>
      takeWhile is_word_char (drop 11 s) \<noteq> [] \<and>
      prefix '';base64,'' (dropWhile is_word_char (drop 11 s)))"

definition strip_data_url_prefix :: "string \<Rightarrow> string" where
  "strip_data_url_prefix s =
     (if matches_image_data_url s then drop 8 (dropWhile is_word_char (drop 11 s)) else s)"

text \<open>
  The disk is the content of the directory \<open>public/generated-images\<close>: a map from file
  names to file contents. Reading or unlinking a file fails exactly when the file is not
  there, and \<open>loadImage\<close> and \<open>deleteImage\<close> catch the failure: the first returns \<open>null\<close>,
  the second does nothing. (The normalisation \<open>path.join\<close> does on a name is outside the
  model.)
\<close>

type_synonym disk = "string \<rightharpoonup> buffer"

text \<open>
  \<open>fs.writeFile\<close> can fail: for a name with a directory that does not exist (an identifier
  such as \<open>a/b\<close>), a NUL character or too many characters, or for a directory that cannot
  be written. Whether it does is given from outside, as the error thrown for a file name.
  \<open>saveImage\<close> does not catch it: the exception leaves \<open>saveImage\<close> (\<open>Inl\<close>), no URL is
  returned, and the failed write leaves no file behind. \<open>ensureDir\<close> swallows its own
  error, so a directory that could not be made shows as a failing write.
\<close>

type_synonym write_errors = "string \<Rightarrow> thrown option"

definition saveImage ::
  "write_errors \<Rightarrow> string \<Rightarrow> string \<Rightarrow> disk \<Rightarrow> (thrown + string) \<times> disk" where
  "saveImage writeFile_error imageId base64Data fs =
     (let base64 = strip_data_url_prefix base64Data;
          buffer = buffer_from_base64 base64;
          filename = imageId @ ''.png''
      in case writeFile_error filename of
           Some e \<Rightarrow> (Inl e, fs)
         | None \<Rightarrow> (Inr (''/generated-images/'' @ filename), fs(filename \<mapsto> buffer)))"

definition loadImage :: "string \<Rightarrow> disk \<Rightarrow> string option" where
  "loadImage imageId fs =
     (case fs (imageId @ ''.png'') of
        None \<Rightarrow> None
      | Some buffer \<Rightarrow> Some (''data:image/png;base64,'' @ buffer_to_base64 buffer))"

definition deleteImage :: "string \<Rightarrow> disk \<Rightarrow> disk" where
  "deleteImage imageId fs =
     (case fs (imageId @ ''.png'') of
        None \<Rightarrow> fs
      | Some buffer \<Rightarrow> fs((imageId @ ''.png'') := None))"

fun clearProjectImages :: "string list \<Rightarrow> disk \<Rightarrow> disk" where
  "clearProjectImages [] fs = fs"
| "clearProjectImages (i # ids) fs = clearProjectImages ids (deleteImage i fs)"



section \<open>State containers\<close>

text \<open>
  The four containers of \<open>lib/agent/index.ts\<close>, each with the memory its \<open>create\<close>
  returns. A handler receives the memory of the container it is declared on as
  \<open>ctx.memory\<close>.
\<close>

datatype video_status = generating | ready | failed

record video =
  v_id :: string
  v_prompt :: string
  v_url :: "string option"
  v_status :: video_status
  v_operationName :: "string option"
  v_createdAt :: nat

record image =
  i_id :: string
  i_prompt :: string
  i_url :: string
  i_createdAt :: nat

datatype step_type = generate_image | generate_video | wait | transform

datatype step_status = pending | active | completed | step_failed

record workflow_step =
  ws_type :: step_type
  ws_params :: jv
  ws_status :: step_status

record workflow =
  wf_id :: string
  wf_name :: string
  wf_steps :: "workflow_step list"
  wf_startedAt :: nat

record VideoProjectMemory =
  projectName :: string
  description :: "string option"
  activeWorkflows :: "workflow list"
  sessionCount :: nat
  videos :: "video list"
  images :: "image list"

definition project_create :: VideoProjectMemory where
  "project_create =
     \<lparr> projectName = ''Untitled Project'', description = None, activeWorkflows = [],
       sessionCount = 0, videos = [], images = [] \<rparr>"

record collection =
  c_name :: string
  c_videoIds :: "string list"
  c_imageIds :: "string list"

text \<open>
  The media library keeps video and image arrays of its own (the optional \<open>metadata\<close> of
  a library video is never written and is left out).
\<close>

record MediaLibraryMemory =
  lib_videos :: "video list"
  lib_images :: "image list"
  collections :: "collection list"

definition mediaLibrary_create :: MediaLibraryMemory where
  "mediaLibrary_create = \<lparr> lib_videos = [], lib_images = [], collections = [] \<rparr>"

datatype pref_ratio = pref_16_9 | pref_9_16 | pref_1_1

text \<open>
  \<open>update-video-preferences\<close> copies its parameters onto \<open>videoSettings\<close> with
  \<open>Object.assign\<close>, under the parameters' own names: \<open>negativePrompt\<close> and \<open>style\<close> become
  fields of the settings object beside \<open>defaultNegativePrompt\<close> and \<open>preferredStyle\<close>.
\<close>

record video_settings =
  vs_aspectRatio :: pref_ratio
  vs_model :: string
  vs_defaultNegativePrompt :: "string option"
  vs_preferredStyle :: "string option"
  vs_negativePrompt :: "string option"
  vs_style :: "string option"

record image_settings =
  is_preferredModel :: "string option"
  is_defaultStyle :: "string option"

record workflow_template =
  t_name :: string
  t_steps :: "jv list"

record PreferencesMemory =
  videoSettings :: video_settings
  imageSettings :: image_settings
  workflowTemplates :: "workflow_template list"

definition preferences_create :: PreferencesMemory where
  "preferences_create =
     \<lparr> videoSettings =
         \<lparr> vs_aspectRatio = pref_16_9, vs_model = ''veo-3.0-generate-preview'',
           vs_defaultNegativePrompt = None, vs_preferredStyle = None,
           vs_negativePrompt = None, vs_style = None \<rparr>,
       imageSettings = \<lparr> is_preferredModel = None, is_defaultStyle = None \<rparr>,
       workflowTemplates = [] \<rparr>"

section \<open>The world outside the handlers\<close>

text \<open>
  What a handler reads from its environment during one call: the clock, the identifiers
  \<open>crypto.randomUUID()\<close> returns (the k-th one drawn in the call), the text JavaScript
  prints for a number and for a date, the object URL made for a downloaded blob, and the
  answers of the three HTTP routes the handlers call with \<open>fetch\<close>, and the error
  \<open>fs.writeFile\<close> throws for a file name, if it throws one.
\<close>

datatype 'a response =
    Fetch_throws thrown
  | Not_ok string
  | Ok_json "thrown + 'a"

record operation =
  op_done :: bool
  op_uri :: "string option"
  op_progressPercent :: "rat option"

datatype download = Download_throws thrown | Download_response bool

record imagen_img =
  imageBytes :: "string option"
  mimeType :: "string option"

record imagen_body =
  ib_images :: "imagen_img option list option"
  ib_image :: "imagen_img option"

type_synonym form = "(string \<times> string) list"

datatype outbound =
    Veo_generate string form
  | Veo_operation string string
  | Veo_download string string
  | Imagen_generate string string rat string

record world =
  NEXT_PUBLIC_URL :: "string option"
  date_now :: nat
  randomUUID :: "nat \<Rightarrow> string"
  createObjectURL :: string
  number_text :: "rat \<Rightarrow> string"
  toLocaleString :: "nat \<Rightarrow> string"
  veo_generate :: "form \<Rightarrow> string option response"
  veo_operation :: "string \<Rightarrow> operation response"
  veo_download :: "string \<Rightarrow> download"
  imagen_generate :: "string \<Rightarrow> rat \<Rightarrow> string \<Rightarrow> imagen_body response"
  writeFile_error :: write_errors

definition baseUrl :: "world \<Rightarrow> string" where
  "baseUrl w = (if truthy_str (NEXT_PUBLIC_URL w) then the (NEXT_PUBLIC_URL w)
                else ''http://localhost:3000'')"

text \<open>
  What a handler call leaves behind: the value it returns (\<open>Inl\<close> when an exception leaves
  the handler), the memory of its container, the disk, and the HTTP calls it made.
\<close>

record 'm outcome =
  returned :: "thrown + result"
  memory :: 'm
  files :: disk
  calls :: "outbound list"

definition failure :: "string \<Rightarrow> string \<Rightarrow> result" where
  "failure err msg = [(''success'', JBool False), (''error'', JStr err), (''message'', JStr msg)]"

text \<open>\<open>error instanceof Error ? error.message : 'Unknown error'\<close>\<close>

fun error_text :: "thrown \<Rightarrow> string" where
  "error_text (Error msg) = msg"
| "error_text Not_an_Error = ''Unknown error''"

text \<open>
  \<open>try { ... } catch (error) { return {success: false, error: ..., message: msg} }\<close>
  around a handler body: what the body changed before it threw stays changed.
\<close>

definition catch_all :: "string \<Rightarrow> 'm outcome \<Rightarrow> 'm outcome" where
  "catch_all msg out =
     (case returned out of
        Inl e \<Rightarrow> out\<lparr> returned := Inr (failure (error_text e) msg) \<rparr>
      | Inr r \<Rightarrow> out)"

fun opt_str :: "string option \<Rightarrow> jv" where
  "opt_str None = JUndefined"
| "opt_str (Some s) = JStr s"

text \<open>A value that may be \<open>undefined\<close>, inside a template literal.\<close>

fun template_text :: "string option \<Rightarrow> string" where
  "template_text None = ''undefined''"
| "template_text (Some s) = s"

section \<open>Actions of the project container\<close>

subsection \<open>generate-veo-video\<close>

datatype veo_model = veo_3_0_generate_preview | veo_3_0_fast_generate_preview | veo_2_0_generate_001

fun model_name :: "veo_model \<Rightarrow> string" where
  "model_name veo_3_0_generate_preview = ''veo-3.0-generate-preview''"
| "model_name veo_3_0_fast_generate_preview = ''veo-3.0-fast-generate-preview''"
| "model_name veo_2_0_generate_001 = ''veo-2.0-generate-001''"

datatype video_ratio = ratio_16_9 | ratio_9_16

fun video_ratio_name :: "video_ratio \<Rightarrow> string" where
  "video_ratio_name ratio_16_9 = ''16:9''"
| "video_ratio_name ratio_9_16 = ''9:16''"

datatype person_generation = allow_all | allow_adult | dont_allow

fun person_generation_name :: "person_generation \<Rightarrow> string" where
  "person_generation_name allow_all = ''allow_all''"
| "person_generation_name allow_adult = ''allow_adult''"
| "person_generation_name dont_allow = ''dont_allow''"

text \<open>
  The parameters after the schema has parsed them: \<open>model\<close>, \<open>aspectRatio\<close> and
  \<open>numberOfVideos\<close> have defaults and are always there, the others are optional.
  \<open>numberOfVideos\<close> is any number from 1 to 2.
\<close>

record video_request =
  vq_prompt :: string
  vq_model :: veo_model
  vq_negativePrompt :: "string option"
  vq_aspectRatio :: video_ratio
  vq_personGeneration :: "person_generation option"
  vq_numberOfVideos :: rat
  vq_useImageId :: "string option"
  vq_useLatestImage :: "bool option"
  vq_imageFile :: "string option"

text \<open>\<open>s.split(c)\<close> for a one-character separator: never the empty list.\<close>

fun split_on :: "char \<Rightarrow> string \<Rightarrow> string list" where
  "split_on c [] = [[]]"
| "split_on c (x # xs) =
     (if x = c then [] # split_on c xs
      else (case split_on c xs of
              [] \<Rightarrow> [[x]]
            | p # ps \<Rightarrow> (x # p) # ps))"

text \<open>\<open>s.replace(pat, '')\<close> for a string pattern: the first occurrence goes.\<close>

fun remove_first :: "string \<Rightarrow> string \<Rightarrow> string" where
  "remove_first pat [] = []"
| "remove_first pat (x # xs) =
     (if prefix pat (x # xs) then drop (length pat) (x # xs) else x # remove_first pat xs)"

text \<open>
  The form fields for the starting image. \<open>[meta, b64] = imageData.split(',')\<close> leaves
  \<open>b64\<close> undefined when there is no comma, and \<open>FormData.append\<close> writes an undefined
  value as the text \<open>undefined\<close>.
\<close>

definition image_fields :: "string option \<Rightarrow> form" where
  "image_fields imageData =
     (if \<not> truthy_str imageData then []
      else
        (let d = the imageData in
         if prefix ''data:'' d then
           (case split_on (CHR '','') d of
              [] \<Rightarrow> []
            | meta # rest \<Rightarrow>
                (let first = (case split_on (CHR '';'') meta of [] \<Rightarrow> [] | f # _ \<Rightarrow> f);
                     replaced = remove_first ''data:'' first;
                     mime = (if replaced \<noteq> [] then replaced else ''image/png'');
                     b64 = (case rest of [] \<Rightarrow> ''undefined'' | b # _ \<Rightarrow> b)
                 in [(''imageBase64'', b64), (''imageMimeType'', mime)]))
         else [(''imageBase64'', d), (''imageMimeType'', ''image/png'')]))"

definition invalid_aspect_ratio :: result where
  "invalid_aspect_ratio =
     failure ''INVALID_ASPECT_RATIO''
       ''Veo 3 models only support 16:9 aspect ratio. Use Veo 2 for 9:16.''"

definition invalid_person_generation :: result where
  "invalid_person_generation =
     failure ''INVALID_PERSON_GENERATION''
       (''Veo 3 text-to-video only supports '' @ [CHR 0x22] @ ''allow_all'' @ [CHR 0x22]
        @ '' for person generation. Use '' @ [CHR 0x22] @ ''allow_adult'' @ [CHR 0x22]
        @ '' only with image input.'')"

definition invalid_number_of_videos :: result where
  "invalid_number_of_videos =
     failure ''INVALID_NUMBER_OF_VIDEOS''
       ''Only Veo 2 supports generating multiple videos. Veo 3 generates one video at a time.''"

text \<open>
  The handler after its three checks. The form is built first; \<open>numberOfVideos\<close> goes in
  for Veo 2 only.
\<close>

definition video_form :: "world \<Rightarrow> video_request \<Rightarrow> form" where
  "video_form w q =
     (let model = model_name (vq_model q);
          isVeo2 = (model = ''veo-2.0-generate-001'')
      in [(''prompt'', vq_prompt q), (''model'', model)]
         @ (if truthy_str (vq_negativePrompt q)
            then [(''negativePrompt'', the (vq_negativePrompt q))] else [])
         @ [(''aspectRatio'', video_ratio_name (vq_aspectRatio q))]
         @ (case vq_personGeneration q of
              None \<Rightarrow> []
            | Some p \<Rightarrow> [(''personGeneration'', person_generation_name p)])
         @ (if isVeo2 \<and> vq_numberOfVideos q \<noteq> 0
            then [(''numberOfVideos'', number_text w (vq_numberOfVideos q))] else []))"

text \<open>
  Then the starting image is chosen: the uploaded file, then the image with the given
  identifier, then the latest image of the project. A later source overwrites an earlier
  one, also with \<open>null\<close> when \<open>loadImage\<close> finds no file.
\<close>

definition starting_image :: "video_request \<Rightarrow> VideoProjectMemory \<Rightarrow> disk \<Rightarrow> string option" where
  "starting_image q m fs =
     (let imageData1 = (if truthy_str (vq_imageFile q) then vq_imageFile q else None);
          imageData2 = (if truthy_str (vq_useImageId q)
                        then loadImage (the (vq_useImageId q)) fs else imageData1);
          imageData3 = (if truthy_bool (vq_useLatestImage q) \<and> images m \<noteq> []
                           \<and> i_id (last (images m)) \<noteq> []
                        then loadImage (i_id (last (images m))) fs else imageData2)
      in imageData3)"

text \<open>
  Last the request is sent, and when the provider answers with an operation the new
  video is pushed on \<open>ctx.memory.videos\<close>.
\<close>

definition send_video_request ::
  "world \<Rightarrow> video_request \<Rightarrow> VideoProjectMemory \<Rightarrow> disk \<Rightarrow> VideoProjectMemory outcome" where
  "send_video_request w q m fs =
     (let body = video_form w q @ image_fields (starting_image q m fs);
          sent = [Veo_generate (baseUrl w @ ''/api/veo/generate'') body]
      in
      case veo_generate w body of
        Fetch_throws e \<Rightarrow>
          \<lparr> returned = Inl e, memory = m, files = fs, calls = sent \<rparr>
      | Not_ok statusText \<Rightarrow>
          \<lparr> returned = Inl (Error (''Failed to start video generation: '' @ statusText)),
            memory = m, files = fs, calls = sent \<rparr>
      | Ok_json (Inl e) \<Rightarrow>
          \<lparr> returned = Inl e, memory = m, files = fs, calls = sent \<rparr>
      | Ok_json (Inr operationName) \<Rightarrow>
          (let videoId = randomUUID w 0;
               video = \<lparr> v_id = videoId, v_prompt = vq_prompt q, v_url = None,
                         v_status = generating, v_operationName = operationName,
                         v_createdAt = date_now w \<rparr>
           in \<lparr> returned = Inr
                  [(''success'', JBool True),
                   (''operationName'', opt_str operationName),
                   (''videoId'', JStr videoId),
                   (''message'', JStr (''Video generation started. Operation: ''
                                       @ template_text operationName))],
                memory = m\<lparr> videos := videos m @ [video] \<rparr>,
                files = fs, calls = sent \<rparr>))"

text \<open>
  The body of the handler, inside its \<open>try\<close>: the three checks, in the order of the
  source, each returning before anything else is done, then the request.
\<close>

definition generateVideo_body ::
  "world \<Rightarrow> video_request \<Rightarrow> VideoProjectMemory \<Rightarrow> disk \<Rightarrow> VideoProjectMemory outcome" where
  "generateVideo_body w q m fs =
     (let model = model_name (vq_model q);
          isVeo3 = prefix ''veo-3.0'' model;
          isVeo2 = (model = ''veo-2.0-generate-001'')
      in
      if isVeo3 \<and> vq_aspectRatio q = ratio_9_16 then
        \<lparr> returned = Inr invalid_aspect_ratio, memory = m, files = fs, calls = [] \<rparr>
      else if isVeo3 \<and> \<not> truthy_str (vq_imageFile q) \<and> \<not> truthy_str (vq_useImageId q)
              \<and> \<not> truthy_bool (vq_useLatestImage q)
              \<and> vq_personGeneration q \<noteq> None \<and> vq_personGeneration q \<noteq> Some allow_all then
        \<lparr> returned = Inr invalid_person_generation, memory = m, files = fs, calls = [] \<rparr>
      else if \<not> isVeo2 \<and> vq_numberOfVideos q \<noteq> 0 \<and> vq_numberOfVideos q > 1 then
        \<lparr> returned = Inr invalid_number_of_videos, memory = m, files = fs, calls = [] \<rparr>
      else send_video_request w q m fs)"

definition generateVideoAction ::
  "world \<Rightarrow> video_request \<Rightarrow> VideoProjectMemory \<Rightarrow> disk \<Rightarrow> VideoProjectMemory outcome" where
  "generateVideoAction w q m fs =
     catch_all ''Failed to start video generation'' (generateVideo_body w q m fs)"

subsection \<open>check-video-status\<close>

text \<open>\<open>xs.find(p)\<close> followed by an assignment to the element found: the first match changes.\<close>

fun update_first :: "('a \<Rightarrow> bool) \<Rightarrow> ('a \<Rightarrow> 'a) \<Rightarrow> 'a list \<Rightarrow> 'a list" where
  "update_first p f [] = []"
| "update_first p f (x # xs) = (if p x then f x # xs else x # update_first p f xs)"

definition video_failed :: result where
  "video_failed =
     [(''success'', JBool False), (''status'', JStr ''failed''),
      (''message'', JStr ''Video generation failed'')]"

definition checkVideoStatus_body ::
  "world \<Rightarrow> string \<Rightarrow> VideoProjectMemory \<Rightarrow> disk \<Rightarrow> VideoProjectMemory outcome" where
  "checkVideoStatus_body w operationName m fs =
     (let asked = [Veo_operation (baseUrl w @ ''/api/veo/operation'') operationName] in
      case veo_operation w operationName of
        Fetch_throws e \<Rightarrow> \<lparr> returned = Inl e, memory = m, files = fs, calls = asked \<rparr>
      | Not_ok statusText \<Rightarrow>
          \<lparr> returned = Inl (Error (''Failed to check operation status: '' @ statusText)),
            memory = m, files = fs, calls = asked \<rparr>
      | Ok_json (Inl e) \<Rightarrow> \<lparr> returned = Inl e, memory = m, files = fs, calls = asked \<rparr>
      | Ok_json (Inr operation) \<Rightarrow>
          if op_done operation then
            (if truthy_str (op_uri operation) then
               (let fileUri = the (op_uri operation);
                    both = asked @ [Veo_download (baseUrl w @ ''/api/veo/download'') fileUri]
                in case veo_download w fileUri of
                     Download_throws e \<Rightarrow>
                       \<lparr> returned = Inl e, memory = m, files = fs, calls = both \<rparr>
                   | Download_response ok \<Rightarrow>
                       if ok then
                         (let url = createObjectURL w in
                          \<lparr> returned = Inr
                              [(''success'', JBool True), (''status'', JStr ''ready''),
                               (''url'', JStr url), (''message'', JStr ''Video is ready!'')],
                            memory = m\<lparr> videos :=
                              update_first (\<lambda>v. v_operationName v = Some operationName)
                                (\<lambda>v. v\<lparr> v_status := ready, v_url := Some url \<rparr>)
                                (videos m) \<rparr>,
                            files = fs, calls = both \<rparr>)
                       else
                         \<lparr> returned = Inr video_failed, memory = m, files = fs, calls = both \<rparr>)
             else \<lparr> returned = Inr video_failed, memory = m, files = fs, calls = asked \<rparr>)
          else
            (let progress = (if truthy_num (op_progressPercent operation)
                             then the (op_progressPercent operation) else 0)
             in \<lparr> returned = Inr
                    [(''success'', JBool True), (''status'', JStr ''processing''),
                     (''progress'', JNum progress),
                     (''message'', JStr (''Video is still processing... ''
                                         @ number_text w progress @ ''% complete''))],
                  memory = m, files = fs, calls = asked \<rparr>))"

definition checkVideoStatusAction ::
  "world \<Rightarrow> string \<Rightarrow> VideoProjectMemory \<Rightarrow> disk \<Rightarrow> VideoProjectMemory outcome" where
  "checkVideoStatusAction w operationName m fs =
     catch_all ''Failed to check video status'' (checkVideoStatus_body w operationName m fs)"

subsection \<open>generate-imagen-image\<close>

datatype image_ratio = img_1_1 | img_3_4 | img_4_3 | img_9_16 | img_16_9

fun image_ratio_name :: "image_ratio \<Rightarrow> string" where
  "image_ratio_name img_1_1 = ''1:1''"
| "image_ratio_name img_3_4 = ''3:4''"
| "image_ratio_name img_4_3 = ''4:3''"
| "image_ratio_name img_9_16 = ''9:16''"
| "image_ratio_name img_16_9 = ''16:9''"

definition image_json :: "image \<Rightarrow> jv" where
  "image_json i =
     JObj [(''id'', JStr (i_id i)), (''prompt'', JStr (i_prompt i)), (''url'', JStr (i_url i)),
           (''createdAt'', JNum (of_nat (i_createdAt i)))]"

text \<open>
  The loop over the images of the response. An entry with no \<open>imageBytes\<close> is skipped; any
  other is written to the disk under a new identifier and pushed on both
  \<open>generatedImages\<close> and \<open>ctx.memory.images\<close>. The number of identifiers drawn so far is the
  length of \<open>generatedImages\<close>. When \<open>saveImage\<close> throws, the loop ends there with the
  exception (the first component), and what was stored before stays stored.
\<close>

fun store_images ::
  "world \<Rightarrow> string \<Rightarrow> imagen_img option list \<Rightarrow> image list \<times> VideoProjectMemory \<times> disk
     \<Rightarrow> thrown option \<times> image list \<times> VideoProjectMemory \<times> disk" where
  "store_images w prompt [] acc = (None, acc)"
| "store_images w prompt (img # imgs) (generatedImages, m, fs) =
     (case img of
        None \<Rightarrow> store_images w prompt imgs (generatedImages, m, fs)
      | Some i \<Rightarrow>
          if truthy_str (imageBytes i) then
            (let mime = (if truthy_str (mimeType i) then the (mimeType i) else ''image/png'');
                 dataUrl = ''data:'' @ mime @ '';base64,'' @ the (imageBytes i);
                 imageId = randomUUID w (length generatedImages);
                 saved = saveImage (writeFile_error w) imageId dataUrl fs
             in case fst saved of
                  Inl e \<Rightarrow> (Some e, generatedImages, m, snd saved)
                | Inr imageUrl \<Rightarrow>
                    (let imageMetadata = \<lparr> i_id = imageId, i_prompt = prompt, i_url = imageUrl,
                                           i_createdAt = date_now w \<rparr>
                     in store_images w prompt imgs
                          (generatedImages @ [imageMetadata],
                           m\<lparr> images := images m @ [imageMetadata] \<rparr>, snd saved)))
          else store_images w prompt imgs (generatedImages, m, fs))"

definition generateImage_body ::
  "world \<Rightarrow> string \<Rightarrow> rat \<Rightarrow> image_ratio \<Rightarrow> VideoProjectMemory \<Rightarrow> disk
     \<Rightarrow> VideoProjectMemory outcome" where
  "generateImage_body w prompt numberOfImages aspectRatio m fs =
     (let sent = [Imagen_generate (baseUrl w @ ''/api/imagen/generate'') prompt numberOfImages
                    (image_ratio_name aspectRatio)] in
      case imagen_generate w prompt numberOfImages (image_ratio_name aspectRatio) of
        Fetch_throws e \<Rightarrow> \<lparr> returned = Inl e, memory = m, files = fs, calls = sent \<rparr>
      | Not_ok statusText \<Rightarrow>
          \<lparr> returned = Inl (Error (''Failed to generate image: '' @ statusText)),
            memory = m, files = fs, calls = sent \<rparr>
      | Ok_json (Inl e) \<Rightarrow> \<lparr> returned = Inl e, memory = m, files = fs, calls = sent \<rparr>
      | Ok_json (Inr result) \<Rightarrow>
          (let stored =
                 (case ib_images result of
                    Some imgs \<Rightarrow> store_images w prompt imgs ([], m, fs)
                  | None \<Rightarrow> store_images w prompt [ib_image result] ([], m, fs));
               generatedImages = fst (snd stored);
               m' = fst (snd (snd stored));
               fs' = snd (snd (snd stored));
               n = length generatedImages
           in
           case fst stored of
             Some e \<Rightarrow> \<lparr> returned = Inl e, memory = m', files = fs', calls = sent \<rparr>
           | None \<Rightarrow>
               if n > 0 then
                 \<lparr> returned = Inr
                     [(''success'', JBool True),
                      (''imageIds'', JArr (map (\<lambda>i. JStr (i_id i)) generatedImages)),
                      (''images'', JArr (map image_json generatedImages)),
                      (''count'', JNum (of_nat n)),
                      (''message'', JStr (''Generated '' @ number_text w (of_nat n) @ '' image''
                                          @ (if n > 1 then ''s'' else []) @ '' successfully''))],
                   memory = m', files = fs', calls = sent \<rparr>
               else
                 \<lparr> returned = Inl (Error ''No image data in response''),
                   memory = m', files = fs', calls = sent \<rparr>))"

definition generateImageAction ::
  "world \<Rightarrow> string \<Rightarrow> rat \<Rightarrow> image_ratio \<Rightarrow> VideoProjectMemory \<Rightarrow> disk
     \<Rightarrow> VideoProjectMemory outcome" where
  "generateImageAction w prompt numberOfImages aspectRatio m fs =
     catch_all ''Failed to generate images''
       (generateImage_body w prompt numberOfImages aspectRatio m fs)"

subsection \<open>list-media\<close>

datatype media_filter = all_media | videos_only | images_only

datatype status_filter = all_status | only_status video_status

fun status_name :: "video_status \<Rightarrow> string" where
  "status_name generating = ''generating''"
| "status_name ready = ''ready''"
| "status_name failed = ''failed''"

definition listMediaAction ::
  "world \<Rightarrow> media_filter \<Rightarrow> status_filter \<Rightarrow> VideoProjectMemory \<Rightarrow> disk
     \<Rightarrow> VideoProjectMemory outcome" where
  "listMediaAction w type status m fs =
     (let vs = (case status of
                  all_status \<Rightarrow> videos m
                | only_status s \<Rightarrow>
                    if type \<noteq> images_only then filter (\<lambda>v. v_status v = s) (videos m)
                    else videos m);
          imgs = images m;
          videos_field =
            (if type = all_media \<or> type = videos_only then
               [(''videos'', JArr (map (\<lambda>v. JObj
                   [(''id'', JStr (v_id v)), (''prompt'', JStr (v_prompt v)),
                    (''status'', JStr (status_name (v_status v))),
                    (''createdAt'', JStr (toLocaleString w (v_createdAt v))),
                    (''url'', opt_str (v_url v))]) vs))]
             else []);
          images_field =
            (if type = all_media \<or> type = images_only then
               [(''images'', JArr (map (\<lambda>i. JObj
                   [(''id'', JStr (i_id i)), (''prompt'', JStr (i_prompt i)),
                    (''createdAt'', JStr (toLocaleString w (i_createdAt i))),
                    (''hasData'', JBool False)]) imgs))]
             else [])
      in \<lparr> returned = Inr
             ([(''success'', JBool True)] @ videos_field @ images_field
              @ [(''summary'', JStr (''Found '' @ number_text w (of_nat (length vs))
                                     @ '' videos and '' @ number_text w (of_nat (length imgs))
                                     @ '' images''))]),
           memory = m, files = fs, calls = [] \<rparr>)"

subsection \<open>clear-project\<close>

text \<open>
  The handler works on \<open>ctx.memory\<close>, the memory of the project container. It deletes
  the files of the images whose identifier is truthy (\<open>.filter(Boolean)\<close> drops the empty
  string), then empties \<open>videos\<close>, \<open>images\<close> and \<open>activeWorkflows\<close>. The project memory has no
  \<open>collections\<close> field, so \<open>if (ctx.memory.collections) ...\<close> does nothing there.
\<close>

definition clearProjectAction ::
  "bool \<Rightarrow> VideoProjectMemory \<Rightarrow> disk \<Rightarrow> VideoProjectMemory outcome" where
  "clearProjectAction confirm m fs =
     (if \<not> confirm then
        \<lparr> returned = Inr [(''success'', JBool False),
                          (''message'', JStr ''Please confirm to clear the project'')],
          memory = m, files = fs, calls = [] \<rparr>
      else
        (let imageIds = filter (\<lambda>i. i \<noteq> []) (map i_id (images m));
             fs' = clearProjectImages imageIds fs;
             m1 = m\<lparr> videos := [] \<rparr>;
             m2 = m1\<lparr> images := [] \<rparr>;
             m3 = m2\<lparr> activeWorkflows := [] \<rparr>
         in \<lparr> returned = Inr [(''success'', JBool True),
                              (''message'', JStr ''Project cleared successfully'')],
              memory = m3, files = fs', calls = [] \<rparr>))"

subsection \<open>start-workflow\<close>

definition startWorkflowAction ::
  "world \<Rightarrow> string \<Rightarrow> (step_type \<times> jv) list \<Rightarrow> VideoProjectMemory \<Rightarrow> disk
     \<Rightarrow> VideoProjectMemory outcome" where
  "startWorkflowAction w name steps m fs =
     (let wf = \<lparr> wf_id = randomUUID w 0, wf_name = name,
                 wf_steps = map (\<lambda>(t, p). \<lparr> ws_type = t, ws_params = p, ws_status = pending \<rparr>) steps,
                 wf_startedAt = date_now w \<rparr>
      in \<lparr> returned = Inr
             [(''workflowId'', JStr (wf_id wf)),
              (''message'', JStr (''Workflow '' @ [CHR 0x22] @ name @ [CHR 0x22]
                 @ '' created with '' @ number_text w (of_nat (length steps))
                 @ '' steps. Execute steps individually or use the workflow builder.''))],
           memory = m\<lparr> activeWorkflows := activeWorkflows m @ [wf] \<rparr>,
           files = fs, calls = [] \<rparr>)"

section \<open>Actions of the preferences container\<close>

record preference_params =
  pp_aspectRatio :: "pref_ratio option"
  pp_model :: "string option"
  pp_negativePrompt :: "string option"
  pp_style :: "string option"

fun pref_ratio_name :: "pref_ratio \<Rightarrow> string" where
  "pref_ratio_name pref_16_9 = ''16:9''"
| "pref_ratio_name pref_9_16 = ''9:16''"
| "pref_ratio_name pref_1_1 = ''1:1''"

definition video_settings_json :: "video_settings \<Rightarrow> jv" where
  "video_settings_json s =
     JObj [(''aspectRatio'', JStr (pref_ratio_name (vs_aspectRatio s))),
           (''model'', JStr (vs_model s)),
           (''defaultNegativePrompt'', opt_str (vs_defaultNegativePrompt s)),
           (''preferredStyle'', opt_str (vs_preferredStyle s)),
           (''negativePrompt'', opt_str (vs_negativePrompt s)),
           (''style'', opt_str (vs_style s))]"

definition updateVideoPreferences ::
  "preference_params \<Rightarrow> PreferencesMemory \<Rightarrow> result \<times> PreferencesMemory" where
  "updateVideoPreferences params m =
     (let s0 = videoSettings m;
          s1 = (case pp_aspectRatio params of None \<Rightarrow> s0 | Some a \<Rightarrow> s0\<lparr> vs_aspectRatio := a \<rparr>);
          s2 = (case pp_model params of None \<Rightarrow> s1 | Some x \<Rightarrow> s1\<lparr> vs_model := x \<rparr>);
          s3 = (case pp_negativePrompt params of
                  None \<Rightarrow> s2 | Some x \<Rightarrow> s2\<lparr> vs_negativePrompt := Some x \<rparr>);
          s4 = (case pp_style params of None \<Rightarrow> s3 | Some x \<Rightarrow> s3\<lparr> vs_style := Some x \<rparr>)
      in ([(''updated'', JBool True), (''preferences'', video_settings_json s4)],
          m\<lparr> videoSettings := s4 \<rparr>))"

definition saveWorkflowTemplate ::
  "string \<Rightarrow> jv list \<Rightarrow> PreferencesMemory \<Rightarrow> result \<times> PreferencesMemory" where
  "saveWorkflowTemplate name steps m =
     (let m' = m\<lparr> workflowTemplates := workflowTemplates m @ [\<lparr> t_name = name, t_steps = steps \<rparr>] \<rparr>
      in ([(''saved'', JBool True),
           (''templateCount'', JNum (of_nat (length (workflowTemplates m'))))], m'))"

section \<open>Actions of the media-library container\<close>

definition addVideo ::
  "world \<Rightarrow> string \<Rightarrow> string \<Rightarrow> MediaLibraryMemory \<Rightarrow> result \<times> MediaLibraryMemory" where
  "addVideo w prompt operationName m =
     (let video = \<lparr> v_id = randomUUID w 0, v_prompt = prompt, v_url = None,
                    v_status = generating, v_operationName = Some operationName,
                    v_createdAt = date_now w \<rparr>
      in ([(''videoId'', JStr (v_id video))], m\<lparr> lib_videos := lib_videos m @ [video] \<rparr>))"

text \<open>
  \<open>update-video-status\<close> assigns the status it is given, whatever the status was, to the
  first video with the identifier; the \<open>url\<close> is assigned when it is truthy.
\<close>

definition updateVideoStatus ::
  "string \<Rightarrow> video_status \<Rightarrow> string option \<Rightarrow> MediaLibraryMemory \<Rightarrow> result \<times> MediaLibraryMemory" where
  "updateVideoStatus videoId status url m =
     ([(''updated'', JBool (\<exists>v \<in> set (lib_videos m). v_id v = videoId))],
      m\<lparr> lib_videos :=
           update_first (\<lambda>v. v_id v = videoId)
             (\<lambda>v. if truthy_str url then v\<lparr> v_status := status, v_url := url \<rparr>
                   else v\<lparr> v_status := status \<rparr>)
             (lib_videos m) \<rparr>)"

definition addImage ::
  "world \<Rightarrow> string \<Rightarrow> string \<Rightarrow> MediaLibraryMemory \<Rightarrow> result \<times> MediaLibraryMemory" where
  "addImage w prompt url m =
     (let image = \<lparr> i_id = randomUUID w 0, i_prompt = prompt, i_url = url,
                    i_createdAt = date_now w \<rparr>
      in ([(''imageId'', JStr (i_id image))], m\<lparr> lib_images := lib_images m @ [image] \<rparr>))"

section \<open>The dispatch surface\<close>

text \<open>
  The state behind one project key: the memories of the four composed containers and the
  disk. Every action runs on the memory of the container that declares it.
\<close>

record agent_state =
  project :: VideoProjectMemory
  analytics :: AnalyticsMemory
  preferences :: PreferencesMemory
  mediaLibrary :: MediaLibraryMemory
  disk_files :: disk

definition agent_create :: agent_state where
  "agent_create =
     \<lparr> project = project_create, analytics = analytics_create,
       preferences = preferences_create, mediaLibrary = mediaLibrary_create,
       disk_files = Map.empty \<rparr>"

datatype action =
    Generate_veo_video video_request
  | Check_video_status string
  | Generate_imagen_image string rat image_ratio
  | List_media media_filter status_filter
  | Clear_project bool
  | Start_workflow string "(step_type \<times> jv) list"
  | Track_generation gen_type bool "rat option"
  | Update_video_preferences preference_params
  | Save_workflow_template string "jv list"
  | Add_video string string
  | Update_video_status string video_status "string option"
  | Add_image string string

definition on_project :: "agent_state \<Rightarrow> VideoProjectMemory outcome \<Rightarrow> agent_state outcome" where
  "on_project s out =
     \<lparr> returned = returned out, memory = s\<lparr> project := memory out, disk_files := files out \<rparr>,
       files = files out, calls = calls out \<rparr>"

definition quiet :: "result \<Rightarrow> agent_state \<Rightarrow> agent_state outcome" where
  "quiet r s = \<lparr> returned = Inr r, memory = s, files = disk_files s, calls = [] \<rparr>"

fun run_action :: "world \<Rightarrow> action \<Rightarrow> agent_state \<Rightarrow> agent_state outcome" where
  "run_action w (Generate_veo_video q) s =
     on_project s (generateVideoAction w q (project s) (disk_files s))"
| "run_action w (Check_video_status operationName) s =
     on_project s (checkVideoStatusAction w operationName (project s) (disk_files s))"
| "run_action w (Generate_imagen_image prompt n ratio) s =
     on_project s (generateImageAction w prompt n ratio (project s) (disk_files s))"
| "run_action w (List_media type status) s =
     on_project s (listMediaAction w type status (project s) (disk_files s))"
| "run_action w (Clear_project confirm) s =
     on_project s (clearProjectAction confirm (project s) (disk_files s))"
| "run_action w (Start_workflow name steps) s =
     on_project s (startWorkflowAction w name steps (project s) (disk_files s))"
| "run_action w (Track_generation ty success duration) s =
     (let r = track_generation ty success duration (date_now w) (analytics s)
      in quiet (fst r) (s\<lparr> analytics := snd r \<rparr>))"
| "run_action w (Update_video_preferences params) s =
     (let r = updateVideoPreferences params (preferences s)
      in quiet (fst r) (s\<lparr> preferences := snd r \<rparr>))"
| "run_action w (Save_workflow_template name steps) s =
     (let r = saveWorkflowTemplate name steps (preferences s)
      in quiet (fst r) (s\<lparr> preferences := snd r \<rparr>))"
| "run_action w (Add_video prompt operationName) s =
     (let r = addVideo w prompt operationName (mediaLibrary s)
      in quiet (fst r) (s\<lparr> mediaLibrary := snd r \<rparr>))"
| "run_action w (Update_video_status videoId status url) s =
     (let r = updateVideoStatus videoId status url (mediaLibrary s)
      in quiet (fst r) (s\<lparr> mediaLibrary := snd r \<rparr>))"
| "run_action w (Add_image prompt url) s =
     (let r = addImage w prompt url (mediaLibrary s)
      in quiet (fst r) (s\<lparr> mediaLibrary := snd r \<rparr>))"


section \<open>Notions used to state the properties\<close>



text \<open>
  Sample worlds for the concrete runs below. In \<open>sample_world\<close> the provider accepts a video
  request, reports the job as done with a file to download, and the download succeeds;
  the image route answers with an error status, and every file can be written. In
  \<open>world_without_file\<close> the job is done but
  the response names no file.
\<close>

definition sample_world :: world where
  "sample_world =
     \<lparr> NEXT_PUBLIC_URL = None,
       date_now = 1700000000000,
       randomUUID = (\<lambda>k. ''uuid-'' @ replicate k (CHR ''x'')),
       createObjectURL = ''blob:video-1'',
       number_text = (\<lambda>r. if r = 2 then ''2'' else if r = 1 then ''1'' else ''0''),
       toLocaleString = (\<lambda>t. ''a date''),
       veo_generate = (\<lambda>body. Ok_json (Inr (Some ''operations/1''))),
       veo_operation = (\<lambda>name. Ok_json (Inr
          \<lparr> op_done = True, op_uri = Some ''https://files/1'', op_progressPercent = None \<rparr>)),
       veo_download = (\<lambda>uri. Download_response True),
       imagen_generate = (\<lambda>prompt n ratio. Not_ok ''Internal Server Error''),
       writeFile_error = (\<lambda>name. None) \<rparr>"


definition sample_request :: video_request where
  "sample_request =
     \<lparr> vq_prompt = ''a cat on a beach'', vq_model = veo_3_0_generate_preview,
       vq_negativePrompt = None, vq_aspectRatio = ratio_16_9, vq_personGeneration = None,
       vq_numberOfVideos = 1, vq_useImageId = None, vq_useLatestImage = None,
       vq_imageFile = None \<rparr>"



section \<open>Properties of the analytics container\<close>

lemma track_video_step:
  assumes "d \<noteq> 0"
  shows "totalVideos (costs (snd (track_generation Video True (Some d) now m)))
           = Suc (totalVideos (costs m))"
    and "averageVideoTime (performance (snd (track_generation Video True (Some d) now m)))
           * of_nat (Suc (totalVideos (costs m)))
           = averageVideoTime (performance m) * of_nat (totalVideos (costs m)) + d"
  using assms by (simp_all add: track_generation_def Let_def)

lemma track_videos_invariant:
  assumes "\<forall>p \<in> set ds. fst p \<noteq> 0"
  shows "totalVideos (costs (track_videos ds m)) = totalVideos (costs m) + length ds
       \<and> averageVideoTime (performance (track_videos ds m))
           * of_nat (totalVideos (costs m) + length ds)
         = averageVideoTime (performance m) * of_nat (totalVideos (costs m))
           + sum_list (map fst ds)"
  using assms
proof (induction ds arbitrary: m)
  case Nil
  then show ?case by simp
next
  case (Cons p ds)
  obtain d now where p: "p = (d, now)" by (cases p)
  from Cons.prems p have d: "d \<noteq> 0" by simp
  let ?m = "snd (track_generation Video True (Some d) now m)"
  from Cons.prems have "\<forall>q \<in> set ds. fst q \<noteq> 0" by simp
  from Cons.IH [OF this, of ?m] track_video_step [OF d, of now m]
  show ?case by (simp add: p algebra_simps)
qed

lemma track_videos_mean:
  assumes "ds \<noteq> []" and "\<forall>p \<in> set ds. fst p \<noteq> 0"
  shows "averageVideoTime (performance (track_videos ds analytics_create))
           = sum_list (map fst ds) / of_nat (length ds)"
proof -
  from track_videos_invariant [OF assms(2), of analytics_create]
  have "averageVideoTime (performance (track_videos ds analytics_create)) * of_nat (length ds)
          = sum_list (map fst ds)"
    by (simp add: analytics_create_def)
  moreover from assms(1) have "(of_nat (length ds) :: rat) \<noteq> 0" by simp
  ultimately show ?thesis by (simp add: field_simps)
qed

text \<open>
  Claim C2, as the code has it: for every non-empty sequence of successful video events
  whose durations are all different from 0, tracked from the fresh analytics state, the
  resulting \<open>averageVideoTime\<close> is the arithmetic mean of the durations, and two
  sequences with the same multiset of durations end with the same average.
\<close>

theorem C2_running_average_is_mean:
  assumes "ds \<noteq> []" and "\<forall>p \<in> set ds. fst p \<noteq> 0"
  shows "averageVideoTime (performance (track_videos ds analytics_create))
           = sum_list (map fst ds) / of_nat (length ds)
       \<and> (\<forall>ds'. mset (map fst ds') = mset (map fst ds) \<longrightarrow>
            averageVideoTime (performance (track_videos ds' analytics_create))
              = averageVideoTime (performance (track_videos ds analytics_create)))"
proof (intro conjI allI impI)
  show "averageVideoTime (performance (track_videos ds analytics_create))
          = sum_list (map fst ds) / of_nat (length ds)"
    by (rule track_videos_mean [OF assms])
next
  fix ds' :: "(rat \<times> nat) list"
  assume eq: "mset (map fst ds') = mset (map fst ds)"
  then have len: "length ds' = length ds"
    by (metis length_map size_mset)
  with assms(1) have ne: "ds' \<noteq> []" by auto
  from eq have "set (map fst ds') = set (map fst ds)" by (metis set_mset_mset)
  then have "fst ` set ds' = fst ` set ds" by simp
  with assms(2) have nz: "\<forall>p \<in> set ds'. fst p \<noteq> 0"
    by (metis (no_types, lifting) imageE imageI)
  from eq have "sum_list (map fst ds') = sum_list (map fst ds)"
    by (metis sum_mset_sum_list)
  with len track_videos_mean [OF ne nz] track_videos_mean [OF assms]
  show "averageVideoTime (performance (track_videos ds' analytics_create))
          = averageVideoTime (performance (track_videos ds analytics_create))"
    by simp
qed

theorem C2_running_average_is_mean_witness:
  "[(8, 100), (4, 200), (6, 300)] \<noteq> ([] :: (rat \<times> nat) list)
   \<and> averageVideoTime (performance
        (track_videos [(8, 100), (4, 200), (6, 300)] analytics_create)) = 6
   \<and> averageVideoTime (performance
        (track_videos [(6, 1), (8, 2), (4, 3)] analytics_create)) = 6"
proof -
  have ne: "[(8, 100), (4, 200), (6, 300)] \<noteq> ([] :: (rat \<times> nat) list)" by simp
  have nz: "\<forall>p \<in> set [(8 :: rat, 100 :: nat), (4, 200), (6, 300)]. fst p \<noteq> 0" by simp
  have ms: "mset (map fst [(6 :: rat, 1 :: nat), (8, 2), (4, 3)])
          = mset (map fst [(8 :: rat, 100 :: nat), (4, 200), (6, 300)])"
    by simp
  note main = C2_running_average_is_mean [OF ne nz]
  from main have a: "averageVideoTime (performance
        (track_videos [(8, 100), (4, 200), (6, 300)] analytics_create)) = 6"
    by simp
  from main have "mset (map fst [(6 :: rat, 1 :: nat), (8, 2), (4, 3)])
          = mset (map fst [(8 :: rat, 100 :: nat), (4, 200), (6, 300)]) \<longrightarrow>
       averageVideoTime (performance (track_videos [(6, 1), (8, 2), (4, 3)] analytics_create))
         = averageVideoTime (performance
             (track_videos [(8, 100), (4, 200), (6, 300)] analytics_create))"
    by blast
  with ms a have b: "averageVideoTime (performance
        (track_videos [(6, 1), (8, 2), (4, 3)] analytics_create)) = 6"
    by (simp only:)
  from ne a b show ?thesis by blast
qed

text \<open>
  Claim C2 as stated fails when a duration is 0: the handler tests \<open>if (duration)\<close>, so a
  0 counts the video but leaves the average alone. Durations 10 then 0 end with average
  10 (the mean is 5), and the same two durations in the other order end with 5.
\<close>

theorem C2_zero_duration_counterexample:
  "averageVideoTime (performance (track_videos [(10, 1), (0, 2)] analytics_create))
     \<noteq> sum_list (map fst [(10 :: rat, 1 :: nat), (0, 2)]) / of_nat (length [(10 :: rat, 1 :: nat), (0, 2)])
   \<and> averageVideoTime (performance (track_videos [(10, 1), (0, 2)] analytics_create))
     \<noteq> averageVideoTime (performance (track_videos [(0, 1), (10, 2)] analytics_create))"
  by (simp add: track_generation_def analytics_create_def Let_def)

text \<open>
  Claim C10: a \<open>track-generation\<close> call with \<open>success = false\<close> appends exactly one event
  to the events log and leaves every aggregate field (\<open>costs\<close> and \<open>performance\<close>) as it
  was, for every analytics state, type, duration and clock value.
\<close>

theorem C10_failed_event_only_logged:
  "snd (track_generation ty False duration now m)
     = m\<lparr> events := events m @
           [\<lparr> ev_type = (if ty = Video then video_generated else image_generated),
              ev_timestamp = now,
              ev_data = \<lparr> ev_success = False, ev_duration = duration \<rparr> \<rparr>] \<rparr>
   \<and> length (events (snd (track_generation ty False duration now m))) = Suc (length (events m))
   \<and> costs (snd (track_generation ty False duration now m)) = costs m
   \<and> performance (snd (track_generation ty False duration now m)) = performance m
   \<and> fst (track_generation ty False duration now m) = [(''tracked'', JBool True)]"
  by (simp add: track_generation_def Let_def)

section \<open>Properties of the media store\<close>



















section \<open>Properties of generate-veo-video\<close>

lemma veo3_names:
  "prefix ''veo-3.0'' (model_name m) = (m \<noteq> veo_2_0_generate_001)"
  "(model_name m = ''veo-2.0-generate-001'') = (m = veo_2_0_generate_001)"
  by (cases m; simp)+

text \<open>
  Claim C4: for every request whose model is one of the two Veo 3 models and whose
  \<open>aspectRatio\<close> is \<open>9:16\<close>, the handler returns the failure with \<open>success: false\<close> and
  \<open>error: 'INVALID_ASPECT_RATIO'\<close>, makes no outbound call, and leaves the whole state (the
  four memories and the disk) as it was.
\<close>

theorem C4_veo3_portrait_rejected:
  assumes "vq_model q = veo_3_0_generate_preview \<or> vq_model q = veo_3_0_fast_generate_preview"
    and "vq_aspectRatio q = ratio_9_16"
  shows "run_action w (Generate_veo_video q) s
           = \<lparr> returned = Inr invalid_aspect_ratio, memory = s, files = disk_files s, calls = [] \<rparr>
       \<and> generateVideoAction w q m fs
           = \<lparr> returned = Inr invalid_aspect_ratio, memory = m, files = fs, calls = [] \<rparr>
       \<and> field invalid_aspect_ratio ''success'' = Some (JBool False)
       \<and> field invalid_aspect_ratio ''error'' = Some (JStr ''INVALID_ASPECT_RATIO'')"
proof -
  from assms(1) have v3: "vq_model q \<noteq> veo_2_0_generate_001" by auto
  have h: "generateVideoAction w q m fs
           = \<lparr> returned = Inr invalid_aspect_ratio, memory = m, files = fs, calls = [] \<rparr>" for m fs
    using v3 assms(2)
    by (simp add: generateVideoAction_def generateVideo_body_def catch_all_def veo3_names Let_def)
  show ?thesis
    by (simp add: h on_project_def invalid_aspect_ratio_def failure_def field_def)
qed

theorem C4_veo3_portrait_rejected_witness:
  "run_action sample_world (Generate_veo_video (sample_request\<lparr> vq_aspectRatio := ratio_9_16 \<rparr>))
      agent_create
     = \<lparr> returned = Inr invalid_aspect_ratio, memory = agent_create,
         files = disk_files agent_create, calls = [] \<rparr>
   \<and> field invalid_aspect_ratio ''error'' = Some (JStr ''INVALID_ASPECT_RATIO'')"
  using C4_veo3_portrait_rejected [where q = "sample_request\<lparr> vq_aspectRatio := ratio_9_16 \<rparr>"
      and w = sample_world and s = agent_create and m = project_create and fs = Map.empty]
  by (simp add: sample_request_def)

lemma send_video_request_shape:
  "(\<exists>e. returned (send_video_request w q m fs) = Inl e
        \<and> memory (send_video_request w q m fs) = m)
   \<or> (\<exists>r. returned (send_video_request w q m fs) = Inr r
        \<and> field r ''success'' = Some (JBool True))"
  by (simp add: send_video_request_def Let_def field_def split: response.splits sum.splits)


lemma send_video_request_calls:
  "calls (send_video_request w q m fs)
     = [Veo_generate (baseUrl w @ ''/api/veo/generate'')
          (video_form w q @ image_fields (starting_image q m fs))]"
  by (simp add: send_video_request_def Let_def split: response.splits sum.splits)

lemma catch_all_simps:
  "calls (catch_all msg out) = calls out"
  "memory (catch_all msg out) = memory out"
  "files (catch_all msg out) = files out"
  "returned (catch_all msg out)
     = (case returned out of Inl e \<Rightarrow> Inr (failure (error_text e) msg) | Inr r \<Rightarrow> Inr r)"
  by (simp_all add: catch_all_def split: sum.splits)

lemma catch_all_quiet:
  "catch_all msg \<lparr> returned = Inr r, memory = m, files = fs, calls = cs \<rparr>
     = \<lparr> returned = Inr r, memory = m, files = fs, calls = cs \<rparr>"
  by (simp add: catch_all_def)

lemma field_failure:
  "field (failure e msg) ''success'' = Some (JBool False)"
  "field (failure e msg) ''error'' = Some (JStr e)"
  "field (failure e msg) ''message'' = Some (JStr msg)"
  by (simp_all add: failure_def field_def)

lemma sent_not_validation_failure:
  assumes "field r ''success'' = Some (JBool False)"
    and "field r ''message'' \<noteq> Some (JStr ''Failed to start video generation'')"
  shows "returned (catch_all ''Failed to start video generation'' (send_video_request w q m fs))
           \<noteq> Inr r"
proof
  assume a: "returned (catch_all ''Failed to start video generation'' (send_video_request w q m fs))
     = Inr r"
  from send_video_request_shape [of w q m fs] show False
  proof (elim disjE exE conjE)
    fix e assume "returned (send_video_request w q m fs) = Inl e"
    with a have "failure (error_text e) ''Failed to start video generation'' = r"
      by (simp add: catch_all_simps)
    then have "field r ''message'' = Some (JStr ''Failed to start video generation'')"
      using field_failure(3) by blast
    with assms(2) show False by simp
  next
    fix r' assume r: "returned (send_video_request w q m fs) = Inr r'"
      and s: "field r' ''success'' = Some (JBool True)"
    from a r have "r' = r" by (simp add: catch_all_simps)
    with s assms(1) show False by simp
  qed
qed

lemma validation_failures:
  "field invalid_aspect_ratio ''success'' = Some (JBool False)"
  "field invalid_aspect_ratio ''error'' = Some (JStr ''INVALID_ASPECT_RATIO'')"
  "field invalid_person_generation ''success'' = Some (JBool False)"
  "field invalid_person_generation ''error'' = Some (JStr ''INVALID_PERSON_GENERATION'')"
  "field invalid_number_of_videos ''success'' = Some (JBool False)"
  "field invalid_number_of_videos ''error'' = Some (JStr ''INVALID_NUMBER_OF_VIDEOS'')"
  "field invalid_person_generation ''message'' \<noteq> Some (JStr ''Failed to start video generation'')"
  "field invalid_number_of_videos ''message'' \<noteq> Some (JStr ''Failed to start video generation'')"
  by (simp_all add: invalid_aspect_ratio_def invalid_person_generation_def
        invalid_number_of_videos_def field_failure)

lemma sent_not_person:
  "returned (catch_all ''Failed to start video generation'' (send_video_request w q m fs))
     \<noteq> Inr invalid_person_generation"
  by (rule sent_not_validation_failure [OF validation_failures(3) validation_failures(7)])

lemma sent_not_number:
  "returned (catch_all ''Failed to start video generation'' (send_video_request w q m fs))
     \<noteq> Inr invalid_number_of_videos"
  by (rule sent_not_validation_failure [OF validation_failures(5) validation_failures(8)])

lemma generateVideo_rejected_person:
  assumes "vq_model q \<noteq> veo_2_0_generate_001"
    and "\<not> truthy_str (vq_imageFile q)" "\<not> truthy_str (vq_useImageId q)"
        "\<not> truthy_bool (vq_useLatestImage q)"
    and "vq_personGeneration q = Some p" "p \<noteq> allow_all"
  shows "generateVideoAction w q m fs
           = \<lparr> returned = Inr (if vq_aspectRatio q = ratio_9_16 then invalid_aspect_ratio
                                else invalid_person_generation),
               memory = m, files = fs, calls = [] \<rparr>"
  using assms
  by (simp add: generateVideoAction_def generateVideo_body_def catch_all_quiet veo3_names Let_def)

lemma generateVideo_not_person:
  assumes "truthy_str (vq_imageFile q) \<or> truthy_str (vq_useImageId q)
           \<or> truthy_bool (vq_useLatestImage q)"
  shows "returned (generateVideoAction w q m fs) \<noteq> Inr invalid_person_generation"
proof -
  have d: "invalid_aspect_ratio \<noteq> invalid_person_generation"
          "invalid_number_of_videos \<noteq> invalid_person_generation"
    by (simp_all add: invalid_aspect_ratio_def invalid_person_generation_def
          invalid_number_of_videos_def failure_def)
  let ?A = "vq_model q \<noteq> veo_2_0_generate_001 \<and> vq_aspectRatio q = ratio_9_16"
  let ?N = "vq_model q \<noteq> veo_2_0_generate_001 \<and> vq_numberOfVideos q \<noteq> 0
            \<and> vq_numberOfVideos q > 1"
  from assms have body: "generateVideo_body w q m fs =
      (if ?A then \<lparr> returned = Inr invalid_aspect_ratio, memory = m, files = fs, calls = [] \<rparr>
       else if ?N then \<lparr> returned = Inr invalid_number_of_videos, memory = m, files = fs, calls = [] \<rparr>
       else send_video_request w q m fs)"
    unfolding generateVideo_body_def Let_def veo3_names
    by (auto simp del: truthy_str.simps truthy_bool.simps)
  show ?thesis
  proof (cases ?A)
    case True
    with body d show ?thesis by (simp add: generateVideoAction_def catch_all_quiet)
  next
    case False
    note notA = this
    show ?thesis
    proof (cases ?N)
      case True
      with body notA d show ?thesis by (simp add: generateVideoAction_def catch_all_quiet)
    next
      case False
      with body notA have "generateVideo_body w q m fs = send_video_request w q m fs"
        by presburger
      then show ?thesis
        using sent_not_person [of w q m fs] by (simp add: generateVideoAction_def)
    qed
  qed
qed

lemma generateVideo_sent:
  assumes "vq_model q = veo_2_0_generate_001
           \<or> (vq_aspectRatio q = ratio_16_9 \<and> vq_numberOfVideos q \<le> 1
               \<and> (truthy_str (vq_imageFile q) \<or> truthy_str (vq_useImageId q)
                   \<or> truthy_bool (vq_useLatestImage q) \<or> vq_personGeneration q = None
                   \<or> vq_personGeneration q = Some allow_all))"
  shows "generateVideoAction w q m fs
           = catch_all ''Failed to start video generation'' (send_video_request w q m fs)"
  using assms
  unfolding generateVideoAction_def generateVideo_body_def Let_def
  by (auto simp: veo3_names simp del: truthy_str.simps truthy_bool.simps)

text \<open>
  Claim C5: for a Veo 3 model and a \<open>personGeneration\<close> other than \<open>allow_all\<close>, a request
  with no image input (\<open>imageFile\<close>, \<open>useImageId\<close> and \<open>useLatestImage\<close> all absent) gets a
  validation failure, with no outbound call and no change of memory or disk. The same
  request with an image input supplied (\<open>q'\<close>: the three image parameters replaced, at
  least one of them a non-empty string or \<open>true\<close>, which is how the handler tests for
  an image input) is not rejected for person generation; with the default aspect ratio
  and a single video it passes all three checks and goes out to the provider.
\<close>

theorem C5_person_generation:
  assumes "vq_model q = veo_3_0_generate_preview \<or> vq_model q = veo_3_0_fast_generate_preview"
    and "vq_personGeneration q = Some p" and "p \<noteq> allow_all"
    and "vq_imageFile q = None" and "vq_useImageId q = None" and "vq_useLatestImage q = None"
    and "q' = q\<lparr> vq_imageFile := f, vq_useImageId := u, vq_useLatestImage := l \<rparr>"
    and "truthy_str f \<or> truthy_str u \<or> truthy_bool l"
  shows "generateVideoAction w q m fs
           = \<lparr> returned = Inr (if vq_aspectRatio q = ratio_9_16 then invalid_aspect_ratio
                                else invalid_person_generation),
               memory = m, files = fs, calls = [] \<rparr>
       \<and> returned (generateVideoAction w q' m fs) \<noteq> Inr invalid_person_generation
       \<and> (vq_aspectRatio q = ratio_16_9 \<and> vq_numberOfVideos q \<le> 1 \<longrightarrow>
            calls (generateVideoAction w q' m fs)
              = [Veo_generate (baseUrl w @ ''/api/veo/generate'')
                   (video_form w q' @ image_fields (starting_image q' m fs))])"
proof (intro conjI impI)
  from assms(1) have v3: "vq_model q \<noteq> veo_2_0_generate_001" by auto
  show "generateVideoAction w q m fs
           = \<lparr> returned = Inr (if vq_aspectRatio q = ratio_9_16 then invalid_aspect_ratio
                                else invalid_person_generation),
               memory = m, files = fs, calls = [] \<rparr>"
    by (rule generateVideo_rejected_person [OF v3 _ _ _ assms(2,3)])
       (simp_all add: assms(4-6))
next
  from assms(7,8) have "truthy_str (vq_imageFile q') \<or> truthy_str (vq_useImageId q')
           \<or> truthy_bool (vq_useLatestImage q')" by simp
  then show "returned (generateVideoAction w q' m fs) \<noteq> Inr invalid_person_generation"
    by (rule generateVideo_not_person)
next
  assume a: "vq_aspectRatio q = ratio_16_9 \<and> vq_numberOfVideos q \<le> 1"
  with assms(7,8) have "vq_model q' = veo_2_0_generate_001
           \<or> (vq_aspectRatio q' = ratio_16_9 \<and> vq_numberOfVideos q' \<le> 1
               \<and> (truthy_str (vq_imageFile q') \<or> truthy_str (vq_useImageId q')
                   \<or> truthy_bool (vq_useLatestImage q') \<or> vq_personGeneration q' = None
                   \<or> vq_personGeneration q' = Some allow_all))"
    by auto
  from generateVideo_sent [OF this]
  show "calls (generateVideoAction w q' m fs)
              = [Veo_generate (baseUrl w @ ''/api/veo/generate'')
                   (video_form w q' @ image_fields (starting_image q' m fs))]"
    by (simp add: catch_all_simps send_video_request_calls)
qed

theorem C5_person_generation_witness:
  "generateVideoAction sample_world
      (sample_request\<lparr> vq_personGeneration := Some allow_adult \<rparr>) project_create Map.empty
     = \<lparr> returned = Inr invalid_person_generation, memory = project_create,
         files = Map.empty, calls = [] \<rparr>
   \<and> returned (generateVideoAction sample_world
        (sample_request\<lparr> vq_personGeneration := Some allow_adult, vq_imageFile := Some ''TWFu'' \<rparr>)
        project_create Map.empty) \<noteq> Inr invalid_person_generation
   \<and> calls (generateVideoAction sample_world
        (sample_request\<lparr> vq_personGeneration := Some allow_adult, vq_imageFile := Some ''TWFu'' \<rparr>)
        project_create Map.empty)
       = [Veo_generate ''http://localhost:3000/api/veo/generate''
            [(''prompt'', ''a cat on a beach''), (''model'', ''veo-3.0-generate-preview''),
             (''aspectRatio'', ''16:9''), (''personGeneration'', ''allow_adult''),
             (''imageBase64'', ''TWFu''), (''imageMimeType'', ''image/png'')]]"
proof -
  let ?q = "sample_request\<lparr> vq_personGeneration := Some allow_adult \<rparr>"
  let ?q' = "sample_request\<lparr> vq_personGeneration := Some allow_adult, vq_imageFile := Some ''TWFu'' \<rparr>"
  have eq: "?q' = ?q\<lparr> vq_imageFile := Some ''TWFu'', vq_useImageId := None,
                        vq_useLatestImage := None \<rparr>"
    by (simp add: sample_request_def)
  have form: "video_form sample_world ?q' @ image_fields (starting_image ?q' project_create Map.empty)
      = [(''prompt'', ''a cat on a beach''), (''model'', ''veo-3.0-generate-preview''),
         (''aspectRatio'', ''16:9''), (''personGeneration'', ''allow_adult''),
         (''imageBase64'', ''TWFu''), (''imageMimeType'', ''image/png'')]"
    by (simp add: sample_request_def video_form_def image_fields_def starting_image_def
          project_create_def Let_def)
  have url: "baseUrl sample_world @ ''/api/veo/generate'' = ''http://localhost:3000/api/veo/generate''"
    by (simp add: baseUrl_def sample_world_def)
  have h: "vq_model ?q = veo_3_0_generate_preview \<or> vq_model ?q = veo_3_0_fast_generate_preview"
      "vq_personGeneration ?q = Some allow_adult" "allow_adult \<noteq> allow_all"
      "vq_imageFile ?q = None" "vq_useImageId ?q = None" "vq_useLatestImage ?q = None"
      "truthy_str (Some ''TWFu'') \<or> truthy_str None \<or> truthy_bool None"
    by (simp_all add: sample_request_def)
  have r: "(if vq_aspectRatio ?q = ratio_9_16 then invalid_aspect_ratio
            else invalid_person_generation) = invalid_person_generation"
     and c: "vq_aspectRatio ?q = ratio_16_9 \<and> vq_numberOfVideos ?q \<le> 1"
    by (simp_all add: sample_request_def)
  note main = C5_person_generation [OF h(1-6) eq h(7), of sample_world project_create Map.empty]
  from main have "generateVideoAction sample_world ?q project_create Map.empty
     = \<lparr> returned = Inr (if vq_aspectRatio ?q = ratio_9_16 then invalid_aspect_ratio
                            else invalid_person_generation),
         memory = project_create, files = Map.empty, calls = [] \<rparr>"
    by blast
  then have a: "generateVideoAction sample_world ?q project_create Map.empty
     = \<lparr> returned = Inr invalid_person_generation, memory = project_create,
         files = Map.empty, calls = [] \<rparr>"
    by (simp only: r simp_thms)
  from main have b: "returned (generateVideoAction sample_world ?q' project_create Map.empty)
     \<noteq> Inr invalid_person_generation"
    by blast
  from main c have "calls (generateVideoAction sample_world ?q' project_create Map.empty)
       = [Veo_generate (baseUrl sample_world @ ''/api/veo/generate'')
            (video_form sample_world ?q'
             @ image_fields (starting_image ?q' project_create Map.empty))]"
    by blast
  then have d: "calls (generateVideoAction sample_world ?q' project_create Map.empty)
       = [Veo_generate ''http://localhost:3000/api/veo/generate''
            [(''prompt'', ''a cat on a beach''), (''model'', ''veo-3.0-generate-preview''),
             (''aspectRatio'', ''16:9''), (''personGeneration'', ''allow_adult''),
             (''imageBase64'', ''TWFu''), (''imageMimeType'', ''image/png'')]]"
    by (simp only: form url simp_thms)
  from a b d show ?thesis by blast
qed

text \<open>
  Claim C6, as the code has it: for every request with \<open>numberOfVideos\<close> greater than 1,
  if the model is \<open>veo-2.0-generate-001\<close> the request is not rejected for the number of
  videos: it is sent to the provider, with the \<open>numberOfVideos\<close> field in the form; if the
  model is a Veo 3 model the handler returns a validation failure without calling the
  provider and without changing memory or disk. The failure is the one of the first
  check that fires: \<open>INVALID_ASPECT_RATIO\<close> for \<open>9:16\<close>, otherwise
  \<open>INVALID_PERSON_GENERATION\<close> for a text-only request with a \<open>personGeneration\<close> other than
  \<open>allow_all\<close>, otherwise \<open>INVALID_NUMBER_OF_VIDEOS\<close>.
\<close>

theorem C6_number_of_videos:
  assumes "vq_numberOfVideos q > 1"
  shows "(vq_model q = veo_2_0_generate_001 \<longrightarrow>
            returned (generateVideoAction w q m fs) \<noteq> Inr invalid_number_of_videos
          \<and> calls (generateVideoAction w q m fs)
              = [Veo_generate (baseUrl w @ ''/api/veo/generate'')
                   (video_form w q @ image_fields (starting_image q m fs))]
          \<and> (''numberOfVideos'', number_text w (vq_numberOfVideos q)) \<in> set (video_form w q))
       \<and> (vq_model q \<noteq> veo_2_0_generate_001 \<longrightarrow>
            generateVideoAction w q m fs
              = \<lparr> returned = Inr
                    (if vq_aspectRatio q = ratio_9_16 then invalid_aspect_ratio
                     else if \<not> truthy_str (vq_imageFile q) \<and> \<not> truthy_str (vq_useImageId q)
                             \<and> \<not> truthy_bool (vq_useLatestImage q)
                             \<and> vq_personGeneration q \<noteq> None
                             \<and> vq_personGeneration q \<noteq> Some allow_all
                          then invalid_person_generation
                     else invalid_number_of_videos),
                  memory = m, files = fs, calls = [] \<rparr>)"
proof (intro conjI impI)
  assume v2: "vq_model q = veo_2_0_generate_001"
  then have sent: "generateVideoAction w q m fs
           = catch_all ''Failed to start video generation'' (send_video_request w q m fs)"
    by (simp add: generateVideo_sent)
  show "returned (generateVideoAction w q m fs) \<noteq> Inr invalid_number_of_videos"
    by (simp only: sent sent_not_number not_False_eq_True)
  show "calls (generateVideoAction w q m fs)
              = [Veo_generate (baseUrl w @ ''/api/veo/generate'')
                   (video_form w q @ image_fields (starting_image q m fs))]"
    by (simp add: sent catch_all_simps send_video_request_calls)
  from assms have "vq_numberOfVideos q \<noteq> 0" by simp
  with v2 show "(''numberOfVideos'', number_text w (vq_numberOfVideos q)) \<in> set (video_form w q)"
    by (simp add: video_form_def Let_def)
next
  assume v3: "vq_model q \<noteq> veo_2_0_generate_001"
  from assms have "vq_numberOfVideos q \<noteq> 0" by simp
  with v3 assms show "generateVideoAction w q m fs
              = \<lparr> returned = Inr
                    (if vq_aspectRatio q = ratio_9_16 then invalid_aspect_ratio
                     else if \<not> truthy_str (vq_imageFile q) \<and> \<not> truthy_str (vq_useImageId q)
                             \<and> \<not> truthy_bool (vq_useLatestImage q)
                             \<and> vq_personGeneration q \<noteq> None
                             \<and> vq_personGeneration q \<noteq> Some allow_all
                          then invalid_person_generation
                     else invalid_number_of_videos),
                  memory = m, files = fs, calls = [] \<rparr>"
    unfolding generateVideoAction_def generateVideo_body_def Let_def veo3_names
    by (simp add: catch_all_quiet del: truthy_str.simps truthy_bool.simps)
qed

theorem C6_number_of_videos_witness:
  "returned (generateVideoAction sample_world
      (sample_request\<lparr> vq_model := veo_2_0_generate_001, vq_numberOfVideos := 2 \<rparr>)
      project_create Map.empty) \<noteq> Inr invalid_number_of_videos
   \<and> calls (generateVideoAction sample_world
      (sample_request\<lparr> vq_model := veo_2_0_generate_001, vq_numberOfVideos := 2 \<rparr>)
      project_create Map.empty)
       = [Veo_generate ''http://localhost:3000/api/veo/generate''
            [(''prompt'', ''a cat on a beach''), (''model'', ''veo-2.0-generate-001''),
             (''aspectRatio'', ''16:9''), (''numberOfVideos'', ''2'')]]
   \<and> generateVideoAction sample_world (sample_request\<lparr> vq_numberOfVideos := 2 \<rparr>)
        project_create Map.empty
       = \<lparr> returned = Inr invalid_number_of_videos, memory = project_create,
           files = Map.empty, calls = [] \<rparr>"
proof -
  let ?q2 = "sample_request\<lparr> vq_model := veo_2_0_generate_001, vq_numberOfVideos := 2 \<rparr>"
  let ?q3 = "sample_request\<lparr> vq_numberOfVideos := 2 \<rparr>"
  have form: "video_form sample_world ?q2 @ image_fields (starting_image ?q2 project_create Map.empty)
      = [(''prompt'', ''a cat on a beach''), (''model'', ''veo-2.0-generate-001''),
         (''aspectRatio'', ''16:9''), (''numberOfVideos'', ''2'')]"
    by (simp add: sample_request_def video_form_def image_fields_def starting_image_def
          project_create_def sample_world_def Let_def)
  have url: "baseUrl sample_world @ ''/api/veo/generate'' = ''http://localhost:3000/api/veo/generate''"
    by (simp add: baseUrl_def sample_world_def)
  have n2: "vq_numberOfVideos ?q2 > 1" and n3: "vq_numberOfVideos ?q3 > 1"
    by (simp_all add: sample_request_def)
  have m2: "vq_model ?q2 = veo_2_0_generate_001"
    by (simp add: sample_request_def)
  from C6_number_of_videos [OF n2, of sample_world project_create Map.empty] m2
  have "returned (generateVideoAction sample_world ?q2 project_create Map.empty)
             \<noteq> Inr invalid_number_of_videos
         \<and> calls (generateVideoAction sample_world ?q2 project_create Map.empty)
             = [Veo_generate (baseUrl sample_world @ ''/api/veo/generate'')
                  (video_form sample_world ?q2
                   @ image_fields (starting_image ?q2 project_create Map.empty))]"
    by blast
  then have a: "returned (generateVideoAction sample_world ?q2 project_create Map.empty)
             \<noteq> Inr invalid_number_of_videos
         \<and> calls (generateVideoAction sample_world ?q2 project_create Map.empty)
             = [Veo_generate ''http://localhost:3000/api/veo/generate''
                  [(''prompt'', ''a cat on a beach''), (''model'', ''veo-2.0-generate-001''),
                   (''aspectRatio'', ''16:9''), (''numberOfVideos'', ''2'')]]"
    by (simp only: form url simp_thms)
  have m3: "vq_model ?q3 \<noteq> veo_2_0_generate_001"
    by (simp add: sample_request_def)
  have r3: "(if vq_aspectRatio ?q3 = ratio_9_16 then invalid_aspect_ratio
             else if \<not> truthy_str (vq_imageFile ?q3) \<and> \<not> truthy_str (vq_useImageId ?q3)
                     \<and> \<not> truthy_bool (vq_useLatestImage ?q3)
                     \<and> vq_personGeneration ?q3 \<noteq> None
                     \<and> vq_personGeneration ?q3 \<noteq> Some allow_all
                  then invalid_person_generation
             else invalid_number_of_videos) = invalid_number_of_videos"
    by (simp add: sample_request_def)
  from C6_number_of_videos [OF n3, of sample_world project_create Map.empty] m3
  have "generateVideoAction sample_world ?q3 project_create Map.empty
       = \<lparr> returned = Inr
             (if vq_aspectRatio ?q3 = ratio_9_16 then invalid_aspect_ratio
              else if \<not> truthy_str (vq_imageFile ?q3) \<and> \<not> truthy_str (vq_useImageId ?q3)
                      \<and> \<not> truthy_bool (vq_useLatestImage ?q3)
                      \<and> vq_personGeneration ?q3 \<noteq> None
                      \<and> vq_personGeneration ?q3 \<noteq> Some allow_all
                   then invalid_person_generation
              else invalid_number_of_videos),
           memory = project_create, files = Map.empty, calls = [] \<rparr>"
    by blast
  then have b: "generateVideoAction sample_world ?q3 project_create Map.empty
       = \<lparr> returned = Inr invalid_number_of_videos, memory = project_create,
           files = Map.empty, calls = [] \<rparr>"
    by (simp only: r3 simp_thms)
  from a b show ?thesis by blast
qed

text \<open>
  Claim C6 as stated fails for a Veo 3 request that also breaks an earlier check: with
  \<open>aspectRatio\<close> \<open>9:16\<close> and two videos the handler returns \<open>INVALID_ASPECT_RATIO\<close>, not
  \<open>INVALID_NUMBER_OF_VIDEOS\<close>.
\<close>

theorem C6_earlier_check_counterexample:
  "returned (generateVideoAction sample_world
      (sample_request\<lparr> vq_aspectRatio := ratio_9_16, vq_numberOfVideos := 2 \<rparr>)
      project_create Map.empty) = Inr invalid_aspect_ratio
   \<and> field invalid_aspect_ratio ''error'' \<noteq> Some (JStr ''INVALID_NUMBER_OF_VIDEOS'')"
  by (simp add: generateVideoAction_def generateVideo_body_def catch_all_quiet Let_def
        sample_request_def validation_failures)

section \<open>Properties of clear-project\<close>

text \<open>
  Claim C9: for every state, \<open>clear-project\<close> with \<open>confirm = false\<close> returns a result with
  \<open>success: false\<close> and leaves the whole state as it was: the four memories and the
  disk are unchanged, and no outbound call is made.
\<close>

theorem C9_unconfirmed_clear:
  "run_action w (Clear_project False) s
     = \<lparr> returned = Inr [(''success'', JBool False),
                         (''message'', JStr ''Please confirm to clear the project'')],
         memory = s, files = disk_files s, calls = [] \<rparr>"
  by (simp add: clearProjectAction_def on_project_def)





section \<open>Properties of the dispatch surface\<close>

subsection \<open>Results and exceptions\<close>














subsection \<open>Video status\<close>
























end
